theory Spec2Isabelle
  imports
    Complex_Main
    "HOL-Library.Char_ord"
    "HOL-Library.List_Lexorder"
    "HOL-Library.Option_ord"
    "HOL-Library.Product_Lexorder"
    "HOL-Library.Multiset"
    "HOL-Library.Sublist"
begin

section \<open>The movie rating site: storage model\<close>

text \<open>
  \<^verbatim>\<open>movie.py\<close> keeps its data in one SQLite file with two tables. A row of each
  table is a record with the columns of the \<^verbatim>\<open>CREATE TABLE\<close> statement; a column
  that may hold \<^verbatim>\<open>NULL\<close> is an \<open>option\<close>. Text is a \<open>string\<close>: the bytes of its
  UTF-8 encoding, which is what SQLite stores and what its default \<^verbatim>\<open>BINARY\<close>
  collation compares. Python's integers are \<open>int\<close>.

  SQLite types values, not columns. The column \<^verbatim>\<open>movie_id\<close> of a review holds what
  the caller bound to the statement: an \<^verbatim>\<open>INTEGER\<close>, or a \<^verbatim>\<open>BLOB\<close> (a sequence of
  bytes), which the \<^verbatim>\<open>INTEGER\<close> affinity of the column stores as it is. An
  \<^verbatim>\<open>INTEGER\<close> and a \<^verbatim>\<open>BLOB\<close> are never equal, and two \<^verbatim>\<open>BLOB\<close>s are equal when
  their bytes are.
\<close>

datatype sql_value = SqlInteger int | SqlBlob "nat list"

record movie =
  m_id :: int
  m_title :: string
  m_director :: "string option"
  m_release_year :: "int option"
  m_poster_url :: "string option"
  m_genre :: "string option"
  m_trailer_url :: "string option"

record review =
  r_id :: int
  r_movie_id :: sql_value
  r_rating :: int
  r_review_text :: "string option"
  r_watch_date :: "string option"

subsection \<open>The schema catalogue\<close>

datatype sql_type = INTEGER | TEXT

datatype column_constraint =
  PRIMARY_KEY_AUTOINCREMENT
  | NOT_NULL
  | CHECK_RANGE int int

datatype column_def = Column string sql_type "column_constraint list"

datatype table_constraint = FOREIGN_KEY_ON_DELETE_CASCADE string string string

record table_def =
  tbl_name :: string
  tbl_columns :: "column_def list"
  tbl_constraints :: "table_constraint list"

text \<open>
  The database file: the catalogue of tables, the rows of the two tables, and the two
  rows of SQLite's \<^verbatim>\<open>sqlite_sequence\<close> bookkeeping (the largest rowid an
  \<^verbatim>\<open>AUTOINCREMENT\<close> table ever held, 0 before the first insert).
\<close>

record database =
  schema :: "table_def list"
  movies :: "movie list"
  reviews :: "review list"
  seq_movies :: int
  seq_reviews :: int

definition empty_database :: database where
  "empty_database =
     \<lparr>schema = [], movies = [], reviews = [], seq_movies = 0, seq_reviews = 0\<rparr>"

definition has_table :: "database \<Rightarrow> string \<Rightarrow> bool" where
  "has_table db name = (name \<in> set (map tbl_name (schema db)))"

subsection \<open>Connections and errors\<close>

text \<open>
  A connection carries SQLite's per-connection switch for foreign key enforcement.
  \<^verbatim>\<open>sqlite3.connect\<close> opens a connection with the switch off (SQLite's default);
  only \<^verbatim>\<open>PRAGMA foreign_keys = ON\<close> turns it on. \<^verbatim>\<open>get_db_connection\<close> sets the
  row factory, which changes how a row is read and nothing else, and executes no pragma.
\<close>

record connection =
  foreign_keys :: bool

definition sqlite3_connect :: connection where
  "sqlite3_connect = \<lparr>foreign_keys = False\<rparr>"

definition get_db_connection :: connection where
  "get_db_connection = sqlite3_connect"

datatype sqlite3_error = OperationalError | IntegrityError

datatype py_exception = Sqlite3Error sqlite3_error | OverflowError

definition fits_int64 :: "int \<Rightarrow> bool" where
  "fits_int64 n = (- 9223372036854775808 \<le> n \<and> n \<le> 9223372036854775807)"

text \<open>
  The movie id a caller passes is a Python \<^verbatim>\<open>int\<close> or a \<^verbatim>\<open>numpy.int64\<close>. The
  \<^verbatim>\<open>sqlite3\<close> module binds an \<^verbatim>\<open>int\<close> as an \<^verbatim>\<open>INTEGER\<close> and raises
  \<^verbatim>\<open>OverflowError\<close> when it does not fit 64 bits. A \<^verbatim>\<open>numpy.int64\<close> is not an
  \<^verbatim>\<open>int\<close>; it offers the buffer protocol, and the module binds such an object as a
  \<^verbatim>\<open>BLOB\<close> of its memory: the eight bytes of the value in two's complement, the least
  significant byte first (on a little-endian machine).
\<close>

datatype py_int = PyInt int | NumpyInt64 int

definition int64_bytes :: "int \<Rightarrow> nat list" where
  "int64_bytes n = map (\<lambda>i. nat ((n div 256 ^ i) mod 256)) [0..<8]"

definition bind_parameter :: "py_int \<Rightarrow> py_exception + sql_value" where
  "bind_parameter p =
     (case p of
        PyInt n \<Rightarrow> if fits_int64 n then Inr (SqlInteger n) else Inl OverflowError
      | NumpyInt64 n \<Rightarrow> Inr (SqlBlob (int64_bytes n)))"

subsection \<open>\<^verbatim>\<open>init_db\<close>\<close>

definition movies_table :: table_def where
  "movies_table =
     \<lparr>tbl_name = ''movies'',
      tbl_columns =
        [Column ''id'' INTEGER [PRIMARY_KEY_AUTOINCREMENT],
         Column ''title'' TEXT [NOT_NULL],
         Column ''director'' TEXT [],
         Column ''release_year'' INTEGER [],
         Column ''poster_url'' TEXT [],
         Column ''genre'' TEXT [],
         Column ''trailer_url'' TEXT []],
      tbl_constraints = []\<rparr>"

definition reviews_table :: table_def where
  "reviews_table =
     \<lparr>tbl_name = ''reviews'',
      tbl_columns =
        [Column ''id'' INTEGER [PRIMARY_KEY_AUTOINCREMENT],
         Column ''movie_id'' INTEGER [NOT_NULL],
         Column ''rating'' INTEGER [NOT_NULL, CHECK_RANGE 1 5],
         Column ''review_text'' TEXT [],
         Column ''watch_date'' TEXT []],
      tbl_constraints = [FOREIGN_KEY_ON_DELETE_CASCADE ''movie_id'' ''movies'' ''id'']\<rparr>"

text \<open>\<^verbatim>\<open>CREATE TABLE IF NOT EXISTS\<close>: nothing happens when a table of that name exists.\<close>

definition create_table_if_not_exists :: "table_def \<Rightarrow> database \<Rightarrow> database" where
  "create_table_if_not_exists t db =
     (if has_table db (tbl_name t) then db else db\<lparr>schema := schema db @ [t]\<rparr>)"

definition init_db :: "database \<Rightarrow> database" where
  "init_db db =
     create_table_if_not_exists reviews_table (create_table_if_not_exists movies_table db)"

subsection \<open>\<^verbatim>\<open>add_review_to_db\<close>\<close>

text \<open>
  The rowid an \<^verbatim>\<open>AUTOINCREMENT\<close> table gives a new row: one more than the largest
  rowid of the table and of its \<^verbatim>\<open>sqlite_sequence\<close> row.
\<close>

definition next_rowid :: "int \<Rightarrow> int list \<Rightarrow> int" where
  "next_rowid seq ids = fold max ids seq + 1"

text \<open>
  \<^verbatim>\<open>cursor.execute("INSERT INTO reviews (movie_id, rating, review_text, watch_date)
  VALUES (?, ?, ?, ?)", ...)\<close> in the order SQLite works: the statement is prepared (the
  table must exist), the parameters are bound (a Python integer outside 64 bits raises
  \<^verbatim>\<open>OverflowError\<close>), a rowid is chosen, the \<^verbatim>\<open>CHECK\<close> constraint of \<^verbatim>\<open>rating\<close> is
  tested, and the foreign key is tested only on a connection that enforces foreign keys.
  A statement that fails changes nothing. The rating is a Python \<^verbatim>\<open>int\<close> (line 280,
  \<^verbatim>\<open>selected_stars_index + 1\<close>); the movie id is whatever the caller holds.
\<close>

definition execute_insert_review ::
  "connection \<Rightarrow> database \<Rightarrow> py_int \<Rightarrow> int \<Rightarrow> string option \<Rightarrow> string option
     \<Rightarrow> py_exception + database" where
  "execute_insert_review conn db movie_id rating review_text watch_date =
     (if \<not> has_table db ''reviews'' then Inl (Sqlite3Error OperationalError)
      else
        case bind_parameter movie_id of
          Inl e \<Rightarrow> Inl e
        | Inr bound_id \<Rightarrow>
            if \<not> fits_int64 rating then Inl OverflowError
            else
              let new_id = next_rowid (seq_reviews db) (map r_id (reviews db)) in
              if \<not> fits_int64 new_id then Inl (Sqlite3Error OperationalError)
              else if \<not> (rating \<ge> 1 \<and> rating \<le> 5) then Inl (Sqlite3Error IntegrityError)
              else if foreign_keys conn \<and> \<not> has_table db ''movies''
                then Inl (Sqlite3Error OperationalError)
              else if foreign_keys conn
                      \<and> bound_id \<notin> set (map (\<lambda>m. SqlInteger (m_id m)) (movies db))
                then Inl (Sqlite3Error IntegrityError)
              else Inr (db\<lparr>reviews := reviews db @
                             [\<lparr>r_id = new_id, r_movie_id = bound_id, r_rating = rating,
                               r_review_text = review_text, r_watch_date = watch_date\<rparr>],
                           seq_reviews := new_id\<rparr>))"

text \<open>
  \<^verbatim>\<open>add_review_to_db\<close> returns \<^verbatim>\<open>True\<close> after the commit, and \<^verbatim>\<open>False\<close> after
  the rollback when the statement raised an \<^verbatim>\<open>sqlite3.Error\<close>. Any other exception
  passes through the \<^verbatim>\<open>finally\<close> block, which closes the connection with nothing
  committed. The result is the outcome and the database the call leaves behind.
\<close>

definition add_review_to_db ::
  "database \<Rightarrow> py_int \<Rightarrow> int \<Rightarrow> string option \<Rightarrow> string option
     \<Rightarrow> (py_exception + bool) \<times> database" where
  "add_review_to_db db movie_id rating review_text watch_date =
     (case execute_insert_review get_db_connection db movie_id rating review_text watch_date of
        Inr db' \<Rightarrow> (Inr True, db')
      | Inl (Sqlite3Error e) \<Rightarrow> (Inr False, db)
      | Inl OverflowError \<Rightarrow> (Inl OverflowError, db))"

subsection \<open>SQL building blocks\<close>

text \<open>
  \<^verbatim>\<open>movies m LEFT JOIN reviews r ON m.id = r.movie_id\<close>: every movie with each
  review whose \<^verbatim>\<open>movie_id\<close> equals its id (an \<^verbatim>\<open>INTEGER\<close>, the rowid), and a movie
  that no review matches once, with \<^verbatim>\<open>NULL\<close> for the review's columns.
\<close>

definition left_join_row :: "review list \<Rightarrow> movie \<Rightarrow> (movie \<times> review option) list" where
  "left_join_row rs m =
     (case filter (\<lambda>r. SqlInteger (m_id m) = r_movie_id r) rs of
        [] \<Rightarrow> [(m, None)]
      | r # rs' \<Rightarrow> map (\<lambda>r. (m, Some r)) (r # rs'))"

definition left_join :: "movie list \<Rightarrow> review list \<Rightarrow> (movie \<times> review option) list" where
  "left_join ms rs = concat (map (left_join_row rs) ms)"

text \<open>\<^verbatim>\<open>movies m JOIN reviews r ON m.id = r.movie_id\<close>: only the pairs that match.\<close>

definition inner_join :: "movie list \<Rightarrow> review list \<Rightarrow> (movie \<times> review) list" where
  "inner_join ms rs =
     concat (map (\<lambda>m. map (\<lambda>r. (m, r))
                        (filter (\<lambda>r. SqlInteger (m_id m) = r_movie_id r) rs)) ms)"

text \<open>
  \<^verbatim>\<open>GROUP BY\<close>: one group for each value of the key, holding the rows with that key.
  SQL leaves the order of the groups open; here a group stands where the last row with
  its key stands in the input.
\<close>

definition group_by :: "('a \<Rightarrow> 'k) \<Rightarrow> 'a list \<Rightarrow> ('k \<times> 'a list) list" where
  "group_by key rows =
     map (\<lambda>k. (k, filter (\<lambda>x. key x = k) rows)) (remdups (map key rows))"

text \<open>
  The aggregates skip \<^verbatim>\<open>NULL\<close>. \<^verbatim>\<open>AVG\<close> of no value is \<^verbatim>\<open>NULL\<close>; otherwise it is
  the sum over the count. SQLite converts the sum and the count to doubles, divides
  them and returns a double; the model keeps the exact quotient as a rational, which is
  the value returned whenever the quotient is itself a double (4 and 5 in the examples
  below) and differs from it by the rounding of the division otherwise (for the ratings
  5, 4, 4 SQLite returns the double nearest to 13/3). The evaluated examples below use
  only averages that are doubles; the general lemmas about an average are statements
  about the exact quotient.
\<close>

definition sql_count :: "'a option list \<Rightarrow> nat" where
  "sql_count vs = length (List.map_filter id vs)"

definition sql_avg :: "int option list \<Rightarrow> rat option" where
  "sql_avg vs =
     (case List.map_filter id vs of
        [] \<Rightarrow> None
      | x # xs \<Rightarrow> Some (of_int (sum_list (x # xs)) / of_int (int (length (x # xs)))))"

subsection \<open>The home page\<close>

record summary_row =
  s_id :: int
  s_title :: string
  s_director :: "string option"
  s_release_year :: "int option"
  s_poster_url :: "string option"
  s_avg_rating :: "rat option"
  s_review_count :: nat

type_synonym movie_key = "int \<times> string \<times> string option \<times> int option \<times> string option"

text \<open>\<^verbatim>\<open>GROUP BY m.id, m.title, m.director, m.release_year, m.poster_url\<close>\<close>

definition movie_key :: "movie \<Rightarrow> movie_key" where
  "movie_key m = (m_id m, m_title m, m_director m, m_release_year m, m_poster_url m)"

definition summary_key :: "summary_row \<Rightarrow> movie_key" where
  "summary_key s = (s_id s, s_title s, s_director s, s_release_year s, s_poster_url s)"

text \<open>The select list: the key's columns, \<^verbatim>\<open>AVG(r.rating)\<close> and \<^verbatim>\<open>COUNT(r.id)\<close>.\<close>

definition summarise :: "movie_key \<times> (movie \<times> review option) list \<Rightarrow> summary_row" where
  "summarise g =
     (case g of ((i, t, d, y, p), rows) \<Rightarrow>
        \<lparr>s_id = i, s_title = t, s_director = d, s_release_year = y, s_poster_url = p,
         s_avg_rating = sql_avg (map (\<lambda>row. map_option r_rating (snd row)) rows),
         s_review_count = sql_count (map (\<lambda>row. map_option r_id (snd row)) rows)\<rparr>)"

text \<open>
  The query of the home page, lines 109 to 126. \<^verbatim>\<open>ORDER BY m.title ASC\<close> sorts by
  the bytes of the title. SQL leaves the order of rows with the same title open; SQLite
  returns them by ascending id, the order in which it scans the table, and so does the
  model.
\<close>

definition home_page_select :: "movie list \<Rightarrow> review list \<Rightarrow> summary_row list" where
  "home_page_select ms rs =
     sort_key (\<lambda>s. (s_title s, s_id s))
       (map summarise (group_by (\<lambda>row. movie_key (fst row)) (left_join ms rs)))"

definition home_page_query :: "database \<Rightarrow> py_exception + summary_row list" where
  "home_page_query db =
     (if has_table db ''movies'' \<and> has_table db ''reviews''
      then Inr (home_page_select (movies db) (reviews db))
      else Inl (Sqlite3Error OperationalError))"

text \<open>
  The rows go through \<^verbatim>\<open>pd.DataFrame([dict(row) for row in all_movies_raw])\<close> before
  they are shown. pandas chooses one type for each column: a column whose values are
  all \<^verbatim>\<open>None\<close> stays a column of objects, and a column with at least one float becomes
  a \<^verbatim>\<open>float64\<close> column in which each \<^verbatim>\<open>None\<close> is \<^verbatim>\<open>NaN\<close>.
\<close>

datatype py_float = PyNone | PyFloat rat | PyNaN

definition dataframe_float_column :: "rat option list \<Rightarrow> py_float list" where
  "dataframe_float_column vs =
     (if list_all (\<lambda>v. v = None) vs then map (\<lambda>v. PyNone) vs
      else map (\<lambda>v. case v of None \<Rightarrow> PyNaN | Some x \<Rightarrow> PyFloat x) vs)"

text \<open>Python's truth value: \<^verbatim>\<open>None\<close> and \<^verbatim>\<open>0.0\<close> are false, \<^verbatim>\<open>NaN\<close> is true.\<close>

fun truthy :: "py_float \<Rightarrow> bool" where
  "truthy PyNone = False"
| "truthy (PyFloat x) = (x \<noteq> 0)"
| "truthy PyNaN = True"

text \<open>
  What a movie's card shows for the rating, lines 161 to 166: the average and the
  number of reviews when \<^verbatim>\<open>movie_row['avg_rating']\<close> is true, the text
  "no rating yet" otherwise.
\<close>

datatype rating_display = AverageRating py_float nat | NoRatingYet

definition rating_display :: "py_float \<Rightarrow> nat \<Rightarrow> rating_display" where
  "rating_display avg n = (if truthy avg then AverageRating avg n else NoRatingYet)"

definition home_page_cards :: "database \<Rightarrow> py_exception + (int \<times> rating_display) list" where
  "home_page_cards db =
     (case home_page_query db of
        Inl e \<Rightarrow> Inl e
      | Inr all_movies_raw \<Rightarrow>
          Inr (map (\<lambda>(row, avg). (s_id row, rating_display avg (s_review_count row)))
                 (zip all_movies_raw
                    (dataframe_float_column (map s_avg_rating all_movies_raw)))))"

text \<open>
  The id the home page hands to the detail page, lines 143 and 169 to 171:
  \<^verbatim>\<open>movie_row = all_movies.iloc[movie_index]\<close> reads the row from the DataFrame,
  whose \<^verbatim>\<open>id\<close> column is an \<^verbatim>\<open>int64\<close> column, so \<^verbatim>\<open>movie_row['id']\<close> is a
  \<^verbatim>\<open>numpy.int64\<close>; the button stores it as \<^verbatim>\<open>selected_movie_id\<close>, and the detail
  page passes it on to its query (line 245) and to \<^verbatim>\<open>add_review_to_db\<close> (line 281).
\<close>

definition selected_movie_id :: "summary_row \<Rightarrow> py_int" where
  "selected_movie_id movie_row = NumpyInt64 (s_id movie_row)"

subsection \<open>The detail page\<close>

text \<open>
  \<^verbatim>\<open>SELECT * FROM reviews WHERE movie_id = ? ORDER BY watch_date DESC, id DESC\<close>:
  the rows whose \<^verbatim>\<open>movie_id\<close> equals the bound value. SQLite orders \<^verbatim>\<open>NULL\<close> below
  every value, as \<open>None\<close> is below every \<open>Some\<close>, and text by its bytes; descending
  order is the ascending order reversed.
\<close>

definition select_reviews :: "review list \<Rightarrow> sql_value \<Rightarrow> review list" where
  "select_reviews rs bound_id =
     rev (sort_key (\<lambda>r. (r_watch_date r, r_id r)) (filter (\<lambda>r. r_movie_id r = bound_id) rs))"

text \<open>Line 245, with the parameter as the caller holds it.\<close>

definition reviews_query :: "database \<Rightarrow> py_int \<Rightarrow> py_exception + review list" where
  "reviews_query db movie_id =
     (if \<not> has_table db ''reviews'' then Inl (Sqlite3Error OperationalError)
      else
        case bind_parameter movie_id of
          Inl e \<Rightarrow> Inl e
        | Inr bound_id \<Rightarrow> Inr (select_reviews (reviews db) bound_id))"

text \<open>
  \<^verbatim>\<open>Series.mean()\<close> of a column of integers: \<^verbatim>\<open>NaN\<close> for no value, otherwise
  the sum over the count, a \<^verbatim>\<open>float64\<close> in pandas and the exact quotient here, as for
  \<^verbatim>\<open>AVG\<close>.
\<close>

definition pandas_mean :: "int list \<Rightarrow> py_float" where
  "pandas_mean xs =
     (if xs = [] then PyNaN else PyFloat (of_int (sum_list xs) / of_int (int (length xs))))"

text \<open>
  Lines 247 to 254: the metric of the detail page, the mean rating and
  \<^verbatim>\<open>len(reviews)\<close>, is computed only when there is a review.
\<close>

definition detail_metric :: "review list \<Rightarrow> (py_float \<times> nat) option" where
  "detail_metric reviews_raw =
     (if reviews_raw = [] then None
      else Some (pandas_mean (map r_rating reviews_raw), length reviews_raw))"

text \<open>\<^verbatim>\<open>str.split(',')\<close>: the pieces between the commas, empty pieces included.\<close>

fun split_on :: "char \<Rightarrow> string \<Rightarrow> string list" where
  "split_on c [] = [[]]"
| "split_on c (x # xs) =
     (if x = c then [] # split_on c xs
      else (case split_on c xs of [] \<Rightarrow> [[x]] | w # ws \<Rightarrow> (x # w) # ws))"

text \<open>
  The characters \<^verbatim>\<open>str.strip()\<close> removes, each as its UTF-8 bytes: U+0009 to U+000D,
  U+001C to U+0020, U+0085, U+00A0, U+1680, U+2000 to U+200A, U+2028, U+2029, U+202F,
  U+205F and U+3000.
\<close>

definition py_whitespace :: "string list" where
  "py_whitespace =
     [[CHR 0x09], [CHR 0x0A], [CHR 0x0B], [CHR 0x0C], [CHR 0x0D],
      [CHR 0x1C], [CHR 0x1D], [CHR 0x1E], [CHR 0x1F], [CHR 0x20],
      [CHR 0xC2, CHR 0x85], [CHR 0xC2, CHR 0xA0], [CHR 0xE1, CHR 0x9A, CHR 0x80],
      [CHR 0xE2, CHR 0x80, CHR 0x80], [CHR 0xE2, CHR 0x80, CHR 0x81],
      [CHR 0xE2, CHR 0x80, CHR 0x82], [CHR 0xE2, CHR 0x80, CHR 0x83],
      [CHR 0xE2, CHR 0x80, CHR 0x84], [CHR 0xE2, CHR 0x80, CHR 0x85],
      [CHR 0xE2, CHR 0x80, CHR 0x86], [CHR 0xE2, CHR 0x80, CHR 0x87],
      [CHR 0xE2, CHR 0x80, CHR 0x88], [CHR 0xE2, CHR 0x80, CHR 0x89],
      [CHR 0xE2, CHR 0x80, CHR 0x8A], [CHR 0xE2, CHR 0x80, CHR 0xA8],
      [CHR 0xE2, CHR 0x80, CHR 0xA9], [CHR 0xE2, CHR 0x80, CHR 0xAF],
      [CHR 0xE2, CHR 0x81, CHR 0x9F], [CHR 0xE3, CHR 0x80, CHR 0x80]]"

text \<open>Removing, from the front, every leading occurrence of one of the patterns.\<close>

function strip_leading :: "string list \<Rightarrow> string \<Rightarrow> string" where
  "strip_leading ws s =
     (case find (\<lambda>w. w \<noteq> [] \<and> prefix w s) ws of
        None \<Rightarrow> s
      | Some w \<Rightarrow> strip_leading ws (drop (length w) s))"
  by pat_completeness auto
termination
proof (relation "measure (\<lambda>(ws, s). length s)")
  show "wf (measure (\<lambda>(ws, s). length s))" by simp
next
  fix ws :: "string list" and s w :: string
  assume "find (\<lambda>w. w \<noteq> [] \<and> prefix w s) ws = Some w"
  then have "w \<noteq> []" and "prefix w s"
    by (auto simp: find_Some_iff)
  then have "s \<noteq> []" by auto
  with \<open>w \<noteq> []\<close> show "((ws, drop (length w) s), (ws, s)) \<in> measure (\<lambda>(ws, s). length s)"
    by simp
qed

definition strip :: "string \<Rightarrow> string" where
  "strip s =
     rev (strip_leading (map rev py_whitespace) (rev (strip_leading py_whitespace s)))"

text \<open>
  Lines 205 to 213: the labels of a movie's genre field,
  \<^verbatim>\<open>[g.strip() for g in movie['genre'].split(',') if g.strip()]\<close>, and no label when
  the field is \<^verbatim>\<open>None\<close> or empty.
\<close>

definition genre_labels :: "string option \<Rightarrow> string list" where
  "genre_labels genre =
     (case genre of
        None \<Rightarrow> []
      | Some s \<Rightarrow>
          if s = [] then []
          else map strip (filter (\<lambda>g. strip g \<noteq> []) (split_on (CHR '','') s)))"

subsection \<open>The statistics page\<close>

text \<open>
  The genre query, lines 354 to 360: the joined rows whose genre is neither \<^verbatim>\<open>NULL\<close>
  nor empty, grouped by the genre field as it is stored, counted, ordered by the count
  descending and cut to five rows. SQL leaves the order of rows with the same count
  open; SQLite returns them by genre descending (bytes), and so does the model.
\<close>

definition genre_rows :: "(movie \<times> review) list \<Rightarrow> (string \<times> review) list" where
  "genre_rows joined =
     concat (map (\<lambda>(m, r). case m_genre m of
                              None \<Rightarrow> []
                            | Some g \<Rightarrow> if g = [] then [] else [(g, r)]) joined)"

definition genre_select :: "movie list \<Rightarrow> review list \<Rightarrow> (string \<times> nat) list" where
  "genre_select ms rs =
     take 5
       (rev (sort_key (\<lambda>(g, n). (n, g))
          (map (\<lambda>(g, rows). (g, sql_count (map (\<lambda>row. Some (r_id (snd row))) rows)))
             (group_by fst (genre_rows (inner_join ms rs))))))"

definition genre_query :: "database \<Rightarrow> py_exception + (string \<times> nat) list" where
  "genre_query db =
     (if has_table db ''movies'' \<and> has_table db ''reviews''
      then Inr (genre_select (movies db) (reviews db))
      else Inl (Sqlite3Error OperationalError))"

subsection \<open>Deleting a movie\<close>


subsection \<open>Example data\<close>

text \<open>
  The scenario of the spec: the movie "Inception" with the genre field "SF, " followed
  by the two Hangul syllables U+C561 U+C158 (in UTF-8 the bytes EC 95 A1 EC 85 98), a
  review with rating 5 and one with rating 3; and a second movie without a review.
  These reviews carry the movie's id as an \<^verbatim>\<open>INTEGER\<close>, as the schema declares the
  column and as \<^verbatim>\<open>add_review_to_db\<close> stores a Python \<^verbatim>\<open>int\<close>.
\<close>

definition genre_action :: string where
  "genre_action = [CHR 0xEC, CHR 0x95, CHR 0xA1, CHR 0xEC, CHR 0x85, CHR 0x98]"

definition inception :: movie where
  "inception =
     \<lparr>m_id = 1, m_title = ''Inception'', m_director = Some ''Christopher Nolan'',
      m_release_year = Some 2010, m_poster_url = Some [],
      m_genre = Some (''SF, '' @ genre_action), m_trailer_url = Some []\<rparr>"

definition arrival :: movie where
  "arrival =
     \<lparr>m_id = 2, m_title = ''Arrival'', m_director = Some ''Denis Villeneuve'',
      m_release_year = Some 2016, m_poster_url = Some [],
      m_genre = Some ''SF'', m_trailer_url = Some []\<rparr>"

definition review_1 :: review where
  "review_1 =
     \<lparr>r_id = 1, r_movie_id = SqlInteger 1, r_rating = 5, r_review_text = Some ''great'',
      r_watch_date = Some ''2024-03-15''\<rparr>"

definition review_2 :: review where
  "review_2 =
     \<lparr>r_id = 2, r_movie_id = SqlInteger 1, r_rating = 3, r_review_text = Some [],
      r_watch_date = None\<rparr>"

definition review_3 :: review where
  "review_3 =
     \<lparr>r_id = 3, r_movie_id = SqlInteger 1, r_rating = 4, r_review_text = Some ''again'',
      r_watch_date = Some ''2024-03-15''\<rparr>"

definition fresh_db :: database where
  "fresh_db = init_db empty_database"

definition inception_db :: database where
  "inception_db =
     fresh_db\<lparr>movies := [inception], reviews := [review_1, review_2],
              seq_movies := 1, seq_reviews := 2\<rparr>"

definition two_movies_db :: database where
  "two_movies_db =
     fresh_db\<lparr>movies := [inception, arrival], reviews := [review_1, review_2, review_3],
              seq_movies := 2, seq_reviews := 3\<rparr>"

definition unrated_db :: database where
  "unrated_db = fresh_db\<lparr>movies := [arrival], seq_movies := 2\<rparr>"

text \<open>
  The same movie with the reviews as the detail page's form writes them: the form calls
  \<^verbatim>\<open>add_review_to_db\<close> with the \<^verbatim>\<open>numpy.int64\<close> of the home page, so the stored
  \<^verbatim>\<open>movie_id\<close> is the \<^verbatim>\<open>BLOB\<close> of its eight bytes, and with the date of the form.
\<close>

definition form_review_1 :: review where
  "form_review_1 =
     \<lparr>r_id = 1, r_movie_id = SqlBlob [1, 0, 0, 0, 0, 0, 0, 0], r_rating = 5,
      r_review_text = Some ''great'', r_watch_date = Some ''2024-03-15''\<rparr>"

definition form_review_2 :: review where
  "form_review_2 =
     \<lparr>r_id = 2, r_movie_id = SqlBlob [1, 0, 0, 0, 0, 0, 0, 0], r_rating = 3,
      r_review_text = Some [], r_watch_date = Some ''2025-01-01''\<rparr>"

definition form_review_3 :: review where
  "form_review_3 =
     \<lparr>r_id = 3, r_movie_id = SqlBlob [1, 0, 0, 0, 0, 0, 0, 0], r_rating = 4,
      r_review_text = Some ''again'', r_watch_date = Some ''2024-03-15''\<rparr>"

definition inception_only_db :: database where
  "inception_only_db = fresh_db\<lparr>movies := [inception], seq_movies := 1\<rparr>"

definition form_db_1 :: database where
  "form_db_1 = inception_only_db\<lparr>reviews := [form_review_1], seq_reviews := 1\<rparr>"

definition form_db_2 :: database where
  "form_db_2 =
     inception_only_db\<lparr>reviews := [form_review_1, form_review_2], seq_reviews := 2\<rparr>"

definition form_db_3 :: database where
  "form_db_3 =
     inception_only_db\<lparr>reviews := [form_review_1, form_review_2, form_review_3],
                       seq_reviews := 3\<rparr>"

definition inception_row :: summary_row where
  "inception_row =
     \<lparr>s_id = 1, s_title = ''Inception'', s_director = Some ''Christopher Nolan'',
      s_release_year = Some 2010, s_poster_url = Some [],
      s_avg_rating = None, s_review_count = 0\<rparr>"

section \<open>Schema provisioning\<close>

lemma has_table_create [simp]:
  "has_table (create_table_if_not_exists t db) n = (has_table db n \<or> n = tbl_name t)"
  by (auto simp: create_table_if_not_exists_def has_table_def)

lemma create_table_existing:
  "has_table db (tbl_name t) \<Longrightarrow> create_table_if_not_exists t db = db"
  by (simp add: create_table_if_not_exists_def)

lemma fresh_db_tables [simp]:
  "has_table fresh_db n = (n = ''movies'' \<or> n = ''reviews'')"
  by (auto simp: fresh_db_def init_db_def empty_database_def has_table_def
      create_table_if_not_exists_def movies_table_def reviews_table_def)

text \<open>
  C8. \<^verbatim>\<open>init_db\<close> is idempotent: it has no failing branch, any number of calls after
  the first leaves the database (catalogue and rows) as the first call left it, and on a
  new database file the catalogue then holds the two tables \<^verbatim>\<open>movies\<close> and
  \<^verbatim>\<open>reviews\<close>, each once, with the columns and constraints of the two statements.
\<close>

theorem init_db_idempotent:
  "init_db (init_db db) = init_db db
   \<and> (init_db ^^ Suc n) db = init_db db
   \<and> schema ((init_db ^^ Suc n) empty_database) = [movies_table, reviews_table]
   \<and> map tbl_name (schema ((init_db ^^ Suc n) empty_database)) = [''movies'', ''reviews'']"
proof -
  have again: "init_db (init_db d) = init_db d" for d
    by (simp add: init_db_def create_table_existing)
  have pow: "(init_db ^^ Suc k) d = init_db d" for k d
    by (induction k) (simp_all add: again)
  have fresh: "schema (init_db empty_database) = [movies_table, reviews_table]"
    by (simp add: init_db_def create_table_if_not_exists_def has_table_def
        empty_database_def movies_table_def reviews_table_def)
  have names: "map tbl_name [movies_table, reviews_table] = [''movies'', ''reviews'']"
    by (simp add: movies_table_def reviews_table_def)
  show ?thesis
    using again [of db] pow [of n db] pow [of n empty_database] fresh names by simp
qed

section \<open>Adding a review\<close>

lemma insert_review_out_of_range:
  assumes "rating < 1 \<or> 5 < rating"
  shows "execute_insert_review conn db movie_id rating review_text watch_date = Inl OverflowError
         \<or> (\<exists>e. execute_insert_review conn db movie_id rating review_text watch_date
                  = Inl (Sqlite3Error e))"
proof -
  have bind: "bind_parameter movie_id = Inl e \<Longrightarrow> e = OverflowError" for e
    by (auto simp: bind_parameter_def split: py_int.splits if_splits)
  show ?thesis
    using assms bind
    by (auto simp: execute_insert_review_def Let_def split: sum.splits)
qed

text \<open>
  C4. A rating below 1 or above 5 never reaches the table: \<^verbatim>\<open>add_review_to_db\<close>
  reports the failure (it returns \<^verbatim>\<open>False\<close> after the rollback, or the
  \<^verbatim>\<open>OverflowError\<close> of an integer outside 64 bits leaves the function) and the
  database is the one before the call, whatever the caller passes as movie id. The
  code has no exception named \<^verbatim>\<open>ValidationError\<close>; these two outcomes are how it
  fails.
\<close>

theorem add_review_rating_out_of_range:
  assumes "rating < 1 \<or> 5 < rating"
  shows "(fst (add_review_to_db db movie_id rating review_text watch_date) = Inr False
          \<or> fst (add_review_to_db db movie_id rating review_text watch_date) = Inl OverflowError)
         \<and> snd (add_review_to_db db movie_id rating review_text watch_date) = db
         \<and> reviews (snd (add_review_to_db db movie_id rating review_text watch_date)) = reviews db"
  using insert_review_out_of_range [OF assms, of get_db_connection db movie_id review_text watch_date]
  by (auto simp: add_review_to_db_def)

theorem add_review_rating_out_of_range_witness:
  "((6::int) < 1 \<or> (5::int) < 6)
   \<and> add_review_to_db inception_db (NumpyInt64 1) 6 (Some ''too good'') (Some ''2024-03-15'')
       = (Inr False, inception_db)"
proof -
  have h: "(6::int) < 1 \<or> (5::int) < 6" by simp
  have "fst (add_review_to_db inception_db (NumpyInt64 1) 6 (Some ''too good'')
               (Some ''2024-03-15''))
          \<noteq> Inl OverflowError"
    by code_simp
  with add_review_rating_out_of_range
         [OF h, of inception_db "NumpyInt64 1" "Some ''too good''" "Some ''2024-03-15''"]
  show ?thesis
    using h by (metis prod.collapse)
qed

text \<open>
  C2. On a database with no movie at all, \<^verbatim>\<open>add_review_to_db\<close> with the movie id 999
  (a Python \<^verbatim>\<open>int\<close>) returns \<^verbatim>\<open>True\<close> and the review is stored: the connection of
  \<^verbatim>\<open>get_db_connection\<close> does not enforce the foreign key the table declares.
\<close>

theorem add_review_unknown_movie_is_stored:
  "add_review_to_db fresh_db (PyInt 999) 5 (Some ''great'') (Some ''2024-03-15'')
     = (Inr True,
        fresh_db\<lparr>reviews := [\<lparr>r_id = 1, r_movie_id = SqlInteger 999, r_rating = 5,
                               r_review_text = Some ''great'',
                               r_watch_date = Some ''2024-03-15''\<rparr>],
                 seq_reviews := 1\<rparr>)
   \<and> movies fresh_db = []"
  by code_simp

text \<open>The same statement on a connection that enforces foreign keys is refused.\<close>

lemma insert_review_foreign_key_enforced:
  assumes "foreign_keys conn" and "movie_id \<notin> set (map m_id (movies db))"
  shows "\<exists>e. execute_insert_review conn db (PyInt movie_id) rating review_text watch_date = Inl e"
proof -
  have "SqlInteger movie_id \<notin> set (map (\<lambda>m. SqlInteger (m_id m)) (movies db))"
    using assms(2) by auto
  with assms(1) show ?thesis
    by (auto simp: execute_insert_review_def bind_parameter_def Let_def)
qed

text \<open>A \<^verbatim>\<open>BLOB\<close> is the id of no movie, so there it is refused as well.\<close>

lemma insert_review_blob_key_refused:
  assumes "foreign_keys conn"
  shows "\<exists>e. execute_insert_review conn db (NumpyInt64 n) rating review_text watch_date = Inl e"
  using assms by (auto simp: execute_insert_review_def bind_parameter_def Let_def)

text \<open>
  A review that passes the checks is appended with a rowid above every rowid of the
  table, so a later review has the larger id.
\<close>

lemma fold_max_upper: "x \<in> set ids \<Longrightarrow> x \<le> fold max ids (s::int)"
proof (induction ids arbitrary: s)
  case Nil
  then show ?case by simp
next
  case (Cons a ids)
  have mono: "s \<le> fold max ids s" for s :: int
  proof (induction ids arbitrary: s)
    case Nil
    then show ?case by simp
  next
    case (Cons b ids)
    have "s \<le> max b s" by simp
    also have "\<dots> \<le> fold max ids (max b s)" by (rule Cons.IH)
    finally show ?case by simp
  qed
  show ?case
  proof (cases "x = a")
    case True
    have "a \<le> max a s" by simp
    also have "\<dots> \<le> fold max ids (max a s)" by (rule mono)
    finally show ?thesis using True by simp
  next
    case False
    then show ?thesis using Cons by simp
  qed
qed

lemma add_review_valid:
  assumes "has_table db ''reviews''" and "bind_parameter movie_id = Inr bound_id"
    and "1 \<le> rating" and "rating \<le> 5"
    and "fits_int64 (next_rowid (seq_reviews db) (map r_id (reviews db)))"
  shows "add_review_to_db db movie_id rating review_text watch_date
           = (Inr True,
              db\<lparr>reviews := reviews db @
                    [\<lparr>r_id = next_rowid (seq_reviews db) (map r_id (reviews db)),
                      r_movie_id = bound_id, r_rating = rating,
                      r_review_text = review_text, r_watch_date = watch_date\<rparr>],
                 seq_reviews := next_rowid (seq_reviews db) (map r_id (reviews db))\<rparr>)"
  using assms
  by (simp add: add_review_to_db_def execute_insert_review_def Let_def fits_int64_def
      get_db_connection_def sqlite3_connect_def)

lemma next_rowid_is_new: "r \<in> set rs \<Longrightarrow> r_id r < next_rowid seq (map r_id rs)"
  using fold_max_upper [of "r_id r" "map r_id rs" seq] by (simp add: next_rowid_def)

section \<open>Grouping the joined rows\<close>

text \<open>
  When the input of \<^verbatim>\<open>GROUP BY\<close> is a sequence of blocks, one block for each element
  of a list, every block non-empty and carrying a key of its own, the groups are the
  blocks.
\<close>

lemma remdups_replicate_block:
  assumes "xs \<noteq> []" and "\<And>x. x \<in> set xs \<Longrightarrow> x = k" and "k \<notin> set ys"
  shows "remdups (xs @ ys) = k # remdups ys"
  using assms
proof (induction xs)
  case Nil
  then show ?case by simp
next
  case (Cons x xs)
  have x: "x = k" using Cons.prems(2) by simp
  show ?case
  proof (cases "xs = []")
    case True
    with x Cons.prems(3) show ?thesis by simp
  next
    case False
    then have "k \<in> set xs" using Cons.prems(2) by (cases xs) auto
    moreover have "remdups (xs @ ys) = k # remdups ys"
      using Cons.IH [OF False] Cons.prems by simp
    ultimately show ?thesis using x by simp
  qed
qed

lemma group_keys_of_blocks:
  assumes "distinct (map f ms)"
    and "\<And>m. m \<in> set ms \<Longrightarrow> g m \<noteq> []"
    and "\<And>m x. m \<in> set ms \<Longrightarrow> x \<in> set (g m) \<Longrightarrow> key x = f m"
  shows "remdups (map key (concat (map g ms))) = map f ms"
  using assms
proof (induction ms)
  case Nil
  then show ?case by simp
next
  case (Cons m ms)
  have rest: "remdups (map key (concat (map g ms))) = map f ms"
    using Cons by simp
  have notin: "f m \<notin> set (map key (concat (map g ms)))"
  proof
    assume "f m \<in> set (map key (concat (map g ms)))"
    then obtain m' x where "m' \<in> set ms" "x \<in> set (g m')" "key x = f m"
      by auto
    then have "f m' = f m" using Cons.prems(3) [of m' x] by simp
    moreover have "f m \<notin> f ` set ms" using Cons.prems(1) by simp
    ultimately show False using \<open>m' \<in> set ms\<close> by (metis imageI)
  qed
  have "remdups (map key (g m) @ map key (concat (map g ms)))
          = f m # remdups (map key (concat (map g ms)))"
  proof (rule remdups_replicate_block)
    show "map key (g m) \<noteq> []" using Cons.prems(2) [of m] by simp
    show "\<And>x. x \<in> set (map key (g m)) \<Longrightarrow> x = f m"
      using Cons.prems(3) [of m] by auto
    show "f m \<notin> set (map key (concat (map g ms)))" by (rule notin)
  qed
  with rest show ?case by simp
qed

lemma group_rows_of_blocks:
  assumes "distinct (map f ms)"
    and "\<And>m x. m \<in> set ms \<Longrightarrow> x \<in> set (g m) \<Longrightarrow> key x = f m"
    and "m \<in> set ms"
  shows "filter (\<lambda>x. key x = f m) (concat (map g ms)) = g m"
  using assms
proof (induction ms)
  case Nil
  then show ?case by simp
next
  case (Cons a ms)
  show ?case
  proof (cases "a = m")
    case True
    have here: "filter (\<lambda>x. key x = f m) (g m) = g m"
      using Cons.prems(2) [of m] True by (simp add: filter_id_conv)
    have "filter (\<lambda>x. key x = f m) (concat (map g ms)) = []"
    proof (rule ccontr)
      assume "filter (\<lambda>x. key x = f m) (concat (map g ms)) \<noteq> []"
      then obtain x where "x \<in> set (concat (map g ms))" "key x = f m"
        by (auto simp: filter_empty_conv)
      then obtain m' where "m' \<in> set ms" "x \<in> set (g m')" by auto
      then have "f m' = f m" using Cons.prems(2) [of m' x] \<open>key x = f m\<close> by simp
      moreover have "f m \<notin> f ` set ms" using Cons.prems(1) True by simp
      ultimately show False using \<open>m' \<in> set ms\<close> by (metis imageI)
    qed
    with here True show ?thesis by simp
  next
    case False
    then have m: "m \<in> set ms" using Cons.prems(3) by simp
    have "f a \<noteq> f m" using Cons.prems(1) m by force
    then have "filter (\<lambda>x. key x = f m) (g a) = []"
      using Cons.prems(2) [of a] by (auto simp: filter_empty_conv)
    moreover have "filter (\<lambda>x. key x = f m) (concat (map g ms)) = g m"
      using Cons.IH Cons.prems m by simp
    ultimately show ?thesis by simp
  qed
qed

lemma group_by_blocks:
  assumes "distinct (map f ms)"
    and "\<And>m. m \<in> set ms \<Longrightarrow> g m \<noteq> []"
    and "\<And>m x. m \<in> set ms \<Longrightarrow> x \<in> set (g m) \<Longrightarrow> key x = f m"
  shows "group_by key (concat (map g ms)) = map (\<lambda>m. (f m, g m)) ms"
proof -
  have "group_by key (concat (map g ms))
          = map (\<lambda>k. (k, filter (\<lambda>x. key x = k) (concat (map g ms)))) (map f ms)"
    unfolding group_by_def using group_keys_of_blocks [OF assms] by simp
  also have "\<dots> = map (\<lambda>m. (f m, g m)) ms"
    using group_rows_of_blocks [of f ms g key, OF assms(1) assms(3)] by simp
  finally show ?thesis .
qed

lemma left_join_row_nonempty: "left_join_row rs m \<noteq> []"
  by (simp add: left_join_row_def split: list.splits)

lemma left_join_row_fst: "x \<in> set (left_join_row rs m) \<Longrightarrow> fst x = m"
  by (auto simp: left_join_row_def split: list.splits)

lemma distinct_movie_key:
  assumes "distinct (map m_id ms)"
  shows "distinct (map movie_key ms)"
proof -
  have "m_id = fst \<circ> movie_key"
    by (simp add: movie_key_def fun_eq_iff)
  with assms have "distinct ms" and "inj_on (fst \<circ> movie_key) (set ms)"
    by (simp_all add: distinct_map)
  then show ?thesis
    by (simp add: distinct_map inj_on_imageI2)
qed


lemma map_filter_Some: "List.map_filter id (map (\<lambda>x. Some (h x)) xs) = map h xs"
  by (induction xs) (simp_all add: List.map_filter_simps)

lemma filter_movie_id_commute:
  "filter (\<lambda>r. SqlInteger (m_id m) = r_movie_id r) rs
     = filter (\<lambda>r. r_movie_id r = SqlInteger (m_id m)) rs"
  by (rule filter_cong) auto

lemma summarise_key: "summary_key (summarise (movie_key m, rows)) = movie_key m"
  by (simp add: summarise_def summary_key_def movie_key_def)

lemma summarise_id: "s_id (summarise (movie_key m, rows)) = m_id m"
  by (simp add: summarise_def movie_key_def)

lemma summarise_count:
  "s_review_count (summarise (movie_key m, left_join_row rs m))
     = length (filter (\<lambda>r. r_movie_id r = SqlInteger (m_id m)) rs)"
proof (cases "filter (\<lambda>r. SqlInteger (m_id m) = r_movie_id r) rs")
  case Nil
  then show ?thesis
    by (simp add: summarise_def movie_key_def left_join_row_def sql_count_def
        List.map_filter_simps filter_movie_id_commute)
next
  case (Cons r rs')
  have "List.map_filter id (map (\<lambda>row. map_option r_id (snd row))
          (map (\<lambda>r. (m, Some r)) (r # rs'))) = map r_id (r # rs')"
    using map_filter_Some [of r_id "r # rs'"] by (simp add: comp_def)
  with Cons show ?thesis
    by (simp add: summarise_def movie_key_def left_join_row_def sql_count_def
        flip: filter_movie_id_commute)
qed

lemma summarise_avg:
  "s_avg_rating (summarise (movie_key m, left_join_row rs m))
     = (if filter (\<lambda>r. r_movie_id r = SqlInteger (m_id m)) rs = [] then None
        else Some (of_int (sum_list (map r_rating (filter (\<lambda>r. r_movie_id r = SqlInteger (m_id m)) rs)))
                   / of_int (int (length (filter (\<lambda>r. r_movie_id r = SqlInteger (m_id m)) rs)))))"
proof (cases "filter (\<lambda>r. SqlInteger (m_id m) = r_movie_id r) rs")
  case Nil
  then show ?thesis
    by (simp add: summarise_def movie_key_def left_join_row_def sql_avg_def
        List.map_filter_simps filter_movie_id_commute)
next
  case (Cons r rs')
  have "List.map_filter id (map (\<lambda>row. map_option r_rating (snd row))
          (map (\<lambda>r. (m, Some r)) (r # rs'))) = map r_rating (r # rs')"
    using map_filter_Some [of r_rating "r # rs'"] by (simp add: comp_def)
  with Cons show ?thesis
    by (simp add: summarise_def movie_key_def left_join_row_def sql_avg_def
        flip: filter_movie_id_commute)
qed

lemma home_page_select_rows:
  assumes "distinct (map m_id ms)"
  shows "home_page_select ms rs
           = sort_key (\<lambda>s. (s_title s, s_id s))
               (map (\<lambda>m. summarise (movie_key m, left_join_row rs m)) ms)"
proof -
  have "group_by (\<lambda>row. movie_key (fst row)) (concat (map (left_join_row rs) ms))
          = map (\<lambda>m. (movie_key m, left_join_row rs m)) ms"
  proof (rule group_by_blocks)
    show "distinct (map movie_key ms)" using assms by (rule distinct_movie_key)
    show "\<And>m. m \<in> set ms \<Longrightarrow> left_join_row rs m \<noteq> []" by (rule left_join_row_nonempty)
    show "\<And>m x. m \<in> set ms \<Longrightarrow> x \<in> set (left_join_row rs m) \<Longrightarrow> movie_key (fst x) = movie_key m"
      by (simp add: left_join_row_fst)
  qed
  then show ?thesis
    by (simp add: home_page_select_def left_join_def comp_def)
qed



lemma home_page_query_rows:
  assumes "has_table db ''movies''" and "has_table db ''reviews''"
    and "distinct (map m_id (movies db))"
  shows "home_page_query db
           = Inr (sort_key (\<lambda>s. (s_title s, s_id s))
                    (map (\<lambda>m. summarise (movie_key m, left_join_row (reviews db) m)) (movies db)))"
  using assms by (simp add: home_page_query_def home_page_select_rows)

lemma home_page_query_row_of_movie:
  assumes "has_table db ''movies''" and "has_table db ''reviews''"
    and "distinct (map m_id (movies db))" and "m \<in> set (movies db)"
  shows "\<exists>rows. home_page_query db = Inr rows
           \<and> summarise (movie_key m, left_join_row (reviews db) m) \<in> set rows"
  using home_page_query_rows [OF assms(1-3)] assms(4) by simp

section \<open>The reviews of one movie\<close>

lemma mset_select_reviews:
  "mset (select_reviews rs i) = mset (filter (\<lambda>r. r_movie_id r = i) rs)"
  by (simp add: select_reviews_def)

lemma select_reviews_empty:
  "(select_reviews rs i = []) = (filter (\<lambda>r. r_movie_id r = i) rs = [])"
  using mset_select_reviews [of rs i] by (metis mset_zero_iff)

lemma length_select_reviews:
  "length (select_reviews rs i) = length (filter (\<lambda>r. r_movie_id r = i) rs)"
  using mset_select_reviews [of rs i] by (rule mset_eq_length)

lemma sum_select_reviews:
  "sum_list (map r_rating (select_reviews rs i))
     = sum_list (map r_rating (filter (\<lambda>r. r_movie_id r = i) rs))"
proof -
  have "mset (map r_rating (select_reviews rs i))
          = mset (map r_rating (filter (\<lambda>r. r_movie_id r = i) rs))"
    using mset_select_reviews [of rs i] by (simp only: mset_map)
  then show ?thesis by (metis sum_mset_sum_list)
qed

lemma detail_metric_select:
  "detail_metric (select_reviews rs i)
     = (if filter (\<lambda>r. r_movie_id r = i) rs = [] then None
        else Some (PyFloat (of_int (sum_list (map r_rating (filter (\<lambda>r. r_movie_id r = i) rs)))
                            / of_int (int (length (filter (\<lambda>r. r_movie_id r = i) rs)))),
                   length (filter (\<lambda>r. r_movie_id r = i) rs)))"
  by (simp add: detail_metric_def pandas_mean_def select_reviews_empty length_select_reviews
      sum_select_reviews)

lemma select_reviews_sorted:
  "sorted_wrt (\<lambda>a b. r_watch_date b < r_watch_date a
                  \<or> (r_watch_date a = r_watch_date b \<and> r_id b \<le> r_id a))
     (select_reviews rs i)"
proof -
  let ?k = "\<lambda>r. (r_watch_date r, r_id r)"
  let ?xs = "filter (\<lambda>r. r_movie_id r = i) rs"
  have "sorted (map ?k (sort_key ?k ?xs))" by (rule sorted_sort_key)
  then have "sorted_wrt (\<lambda>a b. ?k a \<le> ?k b) (sort_key ?k ?xs)"
    by (simp only: sorted_wrt_map)
  then have "sorted_wrt (\<lambda>a b. ?k b \<le> ?k a) (rev (sort_key ?k ?xs))"
    by (simp only: sorted_wrt_rev)
  then show ?thesis
    unfolding select_reviews_def
    by (rule sorted_wrt_mono_rel [rotated]) auto
qed

lemma nulls_last:
  assumes "sorted_wrt (\<lambda>a b. r_watch_date b < r_watch_date a
                  \<or> (r_watch_date a = r_watch_date b \<and> r_id b \<le> r_id a)) xs"
  shows "xs = filter (\<lambda>r. r_watch_date r \<noteq> None) xs @ filter (\<lambda>r. r_watch_date r = None) xs"
  using assms
proof (induction xs)
  case Nil
  then show ?case by simp
next
  case (Cons a xs)
  then have IH: "xs = filter (\<lambda>r. r_watch_date r \<noteq> None) xs @ filter (\<lambda>r. r_watch_date r = None) xs"
    by simp
  show ?case
  proof (cases "r_watch_date a")
    case None
    then have "\<forall>b \<in> set xs. r_watch_date b = None"
      using Cons.prems by auto
    then have "filter (\<lambda>r. r_watch_date r \<noteq> None) xs = []"
      and "filter (\<lambda>r. r_watch_date r = None) xs = xs"
      by (simp_all add: filter_empty_conv filter_id_conv)
    with None show ?thesis by simp
  next
    case (Some d)
    with IH show ?thesis by simp
  qed
qed


lemma reviews_query_bound:
  assumes "has_table db ''reviews''" and "bind_parameter movie_id = Inr bound_id"
  shows "reviews_query db movie_id = Inr (select_reviews (reviews db) bound_id)"
  using assms by (simp add: reviews_query_def)

text \<open>
  C7. The detail page's query returns the reviews stored under the movie id it is given
  (the rows whose \<^verbatim>\<open>movie_id\<close> equals the bound parameter) and no other row, each as
  often as it is stored; of two rows the earlier one has the later watch date, or the
  same watch date (both absent, or the same text) and the larger id; and every row with a
  watch date stands before every row without one. Watch dates are compared as SQLite
  compares them: as text, byte by byte, \<^verbatim>\<open>NULL\<close> below every text. This holds for an id
  passed as a Python \<^verbatim>\<open>int\<close> and for the \<^verbatim>\<open>numpy.int64\<close> the page passes.
\<close>

theorem reviews_query_order:
  assumes "has_table db ''reviews''" and "bind_parameter movie_id = Inr bound_id"
  shows "\<exists>rs. reviews_query db movie_id = Inr rs
           \<and> mset rs = mset (filter (\<lambda>r. r_movie_id r = bound_id) (reviews db))
           \<and> sorted_wrt (\<lambda>a b. r_watch_date b < r_watch_date a
                  \<or> (r_watch_date a = r_watch_date b \<and> r_id b \<le> r_id a)) rs
           \<and> rs = filter (\<lambda>r. r_watch_date r \<noteq> None) rs @ filter (\<lambda>r. r_watch_date r = None) rs"
proof -
  have "reviews_query db movie_id = Inr (select_reviews (reviews db) bound_id)"
    using assms by (rule reviews_query_bound)
  moreover note mset_select_reviews [of "reviews db" bound_id]
    select_reviews_sorted [of "reviews db" bound_id]
    nulls_last [OF select_reviews_sorted [of "reviews db" bound_id]]
  ultimately show ?thesis by blast
qed

theorem reviews_query_order_witness:
  "has_table form_db_3 ''reviews''
   \<and> bind_parameter (selected_movie_id inception_row) = Inr (SqlBlob [1, 0, 0, 0, 0, 0, 0, 0])
   \<and> reviews_query form_db_3 (selected_movie_id inception_row)
        = Inr [form_review_2, form_review_3, form_review_1]
   \<and> (\<exists>rs. reviews_query form_db_3 (selected_movie_id inception_row) = Inr rs
         \<and> mset rs = mset (filter (\<lambda>r. r_movie_id r = SqlBlob [1, 0, 0, 0, 0, 0, 0, 0])
                              (reviews form_db_3))
         \<and> sorted_wrt (\<lambda>a b. r_watch_date b < r_watch_date a
                \<or> (r_watch_date a = r_watch_date b \<and> r_id b \<le> r_id a)) rs
         \<and> rs = filter (\<lambda>r. r_watch_date r \<noteq> None) rs @ filter (\<lambda>r. r_watch_date r = None) rs)
   \<and> has_table two_movies_db ''reviews''
   \<and> bind_parameter (PyInt 1) = Inr (SqlInteger 1)
   \<and> reviews_query two_movies_db (PyInt 1) = Inr [review_3, review_1, review_2]
   \<and> (\<exists>rs. reviews_query two_movies_db (PyInt 1) = Inr rs
         \<and> mset rs = mset (filter (\<lambda>r. r_movie_id r = SqlInteger 1) (reviews two_movies_db))
         \<and> sorted_wrt (\<lambda>a b. r_watch_date b < r_watch_date a
                \<or> (r_watch_date a = r_watch_date b \<and> r_id b \<le> r_id a)) rs
         \<and> rs = filter (\<lambda>r. r_watch_date r \<noteq> None) rs @ filter (\<lambda>r. r_watch_date r = None) rs)"
proof -
  have h1: "has_table form_db_3 ''reviews''" by code_simp
  have h2: "bind_parameter (selected_movie_id inception_row)
              = Inr (SqlBlob [1, 0, 0, 0, 0, 0, 0, 0])" by code_simp
  have v: "reviews_query form_db_3 (selected_movie_id inception_row)
             = Inr [form_review_2, form_review_3, form_review_1]" by code_simp
  have k1: "has_table two_movies_db ''reviews''" by code_simp
  have k2: "bind_parameter (PyInt 1) = Inr (SqlInteger 1)" by code_simp
  have w: "reviews_query two_movies_db (PyInt 1) = Inr [review_3, review_1, review_2]"
    by code_simp
  from reviews_query_order [OF h1 h2] reviews_query_order [OF k1 k2] h1 h2 v k1 k2 w
  show ?thesis by (intro conjI)
qed

text \<open>
  A review the form has just written is among the rows the page then lists: the query
  binds the id as the insert did.
\<close>

lemma added_review_is_listed:
  assumes "add_review_to_db db movie_id rating review_text watch_date = (Inr True, db')"
  shows "\<exists>rs r. reviews_query db' movie_id = Inr rs \<and> reviews db' = reviews db @ [r]
           \<and> r \<in> set rs \<and> r_rating r = rating \<and> r_watch_date r = watch_date"
proof -
  from assms obtain bound_id where b: "bind_parameter movie_id = Inr bound_id"
    and t: "has_table db ''reviews''"
    and d: "db' = db\<lparr>reviews := reviews db @
                    [\<lparr>r_id = next_rowid (seq_reviews db) (map r_id (reviews db)),
                      r_movie_id = bound_id, r_rating = rating,
                      r_review_text = review_text, r_watch_date = watch_date\<rparr>],
                 seq_reviews := next_rowid (seq_reviews db) (map r_id (reviews db))\<rparr>"
    by (auto simp: add_review_to_db_def execute_insert_review_def Let_def
        split: sum.splits if_splits py_exception.splits)
  let ?r = "\<lparr>r_id = next_rowid (seq_reviews db) (map r_id (reviews db)),
             r_movie_id = bound_id, r_rating = rating,
             r_review_text = review_text, r_watch_date = watch_date\<rparr>"
  have t': "has_table db' ''reviews''" using t d by (simp add: has_table_def)
  have q: "reviews_query db' movie_id = Inr (select_reviews (reviews db') bound_id)"
    using t' b by (rule reviews_query_bound)
  have "?r \<in> set (select_reviews (reviews db') bound_id)"
    using d by (simp add: select_reviews_def)
  with q d show ?thesis by auto
qed

section \<open>The summaries of the home page\<close>

text \<open>
  C5. With the primary key of \<^verbatim>\<open>movies\<close> in force (no two rows share an id), the
  home page's query returns one row for each stored movie and no other row, ordered by
  title ascending, and a movie without a review (no row of \<^verbatim>\<open>reviews\<close> holds its id)
  is among them with the average \<^verbatim>\<open>NULL\<close> and the count 0.
\<close>

theorem home_page_query_lists_every_movie:
  assumes "has_table db ''movies''" and "has_table db ''reviews''"
    and "distinct (map m_id (movies db))"
  shows "\<exists>rows. home_page_query db = Inr rows
           \<and> mset (map summary_key rows) = mset (map movie_key (movies db))
           \<and> distinct (map s_id rows)
           \<and> sorted (map s_title rows)
           \<and> (\<forall>m \<in> set (movies db).
                 filter (\<lambda>r. r_movie_id r = SqlInteger (m_id m)) (reviews db) = [] \<longrightarrow>
                 (\<exists>row \<in> set rows. summary_key row = movie_key m
                     \<and> s_avg_rating row = None \<and> s_review_count row = 0))"
proof -
  let ?S = "\<lambda>m. summarise (movie_key m, left_join_row (reviews db) m)"
  let ?rows = "sort_key (\<lambda>s. (s_title s, s_id s)) (map ?S (movies db))"
  have q: "home_page_query db = Inr ?rows"
    using assms by (rule home_page_query_rows)
  have perm: "mset (map f ?rows) = mset (map f (map ?S (movies db)))" for f :: "summary_row \<Rightarrow> 'b"
    by (simp only: mset_map mset_sort)
  have e1: "map summary_key (map ?S (movies db)) = map movie_key (movies db)"
    by (simp add: summarise_key)
  have keys: "mset (map summary_key ?rows) = mset (map movie_key (movies db))"
    using perm [of summary_key] by (simp only: e1)
  have e2: "map s_id (map ?S (movies db)) = map m_id (movies db)"
    by (simp add: summarise_id)
  have "mset (map s_id ?rows) = mset (map m_id (movies db))"
    using perm [of s_id] by (simp only: e2)
  then have ids: "distinct (map s_id ?rows)"
    using assms(3) mset_eq_imp_distinct_iff by blast
  have "sorted (map (\<lambda>s. (s_title s, s_id s)) ?rows)" by (rule sorted_sort_key)
  then have "sorted_wrt (\<lambda>a b. (s_title a, s_id a) \<le> (s_title b, s_id b)) ?rows"
    by (simp only: sorted_map)
  then have "sorted_wrt (\<lambda>a b. s_title a \<le> s_title b) ?rows"
    by (rule sorted_wrt_mono_rel [rotated]) auto
  then have srt: "sorted (map s_title ?rows)"
    by (simp only: sorted_map)
  have zero: "\<exists>row \<in> set ?rows. summary_key row = movie_key m
                 \<and> s_avg_rating row = None \<and> s_review_count row = 0"
    if "m \<in> set (movies db)" and "filter (\<lambda>r. r_movie_id r = SqlInteger (m_id m)) (reviews db) = []" for m
  proof -
    have "?S m \<in> set ?rows" using that(1) by simp
    moreover have "summary_key (?S m) = movie_key m" by (rule summarise_key)
    moreover have "s_avg_rating (?S m) = None" using that(2) by (simp add: summarise_avg)
    moreover have "s_review_count (?S m) = 0" using that(2) by (simp add: summarise_count)
    ultimately show ?thesis by blast
  qed
  show ?thesis
  proof (intro exI conjI ballI impI)
    show "home_page_query db = Inr ?rows" by (rule q)
    show "mset (map summary_key ?rows) = mset (map movie_key (movies db))" by (rule keys)
    show "distinct (map s_id ?rows)" by (rule ids)
    show "sorted (map s_title ?rows)" by (rule srt)
    show "\<exists>row \<in> set ?rows. summary_key row = movie_key m
             \<and> s_avg_rating row = None \<and> s_review_count row = 0"
      if "m \<in> set (movies db)" and "filter (\<lambda>r. r_movie_id r = SqlInteger (m_id m)) (reviews db) = []" for m
      using that by (rule zero)
  qed
qed

theorem home_page_query_lists_every_movie_witness:
  "has_table two_movies_db ''movies'' \<and> has_table two_movies_db ''reviews''
   \<and> distinct (map m_id (movies two_movies_db))
   \<and> home_page_query two_movies_db
       = Inr [\<lparr>s_id = 2, s_title = ''Arrival'', s_director = Some ''Denis Villeneuve'',
               s_release_year = Some 2016, s_poster_url = Some [],
               s_avg_rating = None, s_review_count = 0\<rparr>,
              \<lparr>s_id = 1, s_title = ''Inception'', s_director = Some ''Christopher Nolan'',
               s_release_year = Some 2010, s_poster_url = Some [],
               s_avg_rating = Some 4, s_review_count = 3\<rparr>]
   \<and> (\<exists>rows. home_page_query two_movies_db = Inr rows
         \<and> mset (map summary_key rows) = mset (map movie_key (movies two_movies_db))
         \<and> distinct (map s_id rows)
         \<and> sorted (map s_title rows)
         \<and> (\<forall>m \<in> set (movies two_movies_db).
               filter (\<lambda>r. r_movie_id r = SqlInteger (m_id m)) (reviews two_movies_db) = [] \<longrightarrow>
               (\<exists>row \<in> set rows. summary_key row = movie_key m
                   \<and> s_avg_rating row = None \<and> s_review_count row = 0)))"
proof -
  have h1: "has_table two_movies_db ''movies''" by code_simp
  have h2: "has_table two_movies_db ''reviews''" by code_simp
  have h3: "distinct (map m_id (movies two_movies_db))" by code_simp
  have v: "home_page_query two_movies_db
       = Inr [\<lparr>s_id = 2, s_title = ''Arrival'', s_director = Some ''Denis Villeneuve'',
               s_release_year = Some 2016, s_poster_url = Some [],
               s_avg_rating = None, s_review_count = 0\<rparr>,
              \<lparr>s_id = 1, s_title = ''Inception'', s_director = Some ''Christopher Nolan'',
               s_release_year = Some 2010, s_poster_url = Some [],
               s_avg_rating = Some 4, s_review_count = 3\<rparr>]" by code_simp
  from home_page_query_lists_every_movie [OF h1 h2 h3] h1 h2 h3 v show ?thesis
    by (intro conjI)
qed

text \<open>
  The row of a stored movie counts the reviews that hold the movie's id as an
  \<^verbatim>\<open>INTEGER\<close> and averages their ratings (the exact quotient, see \<open>sql_avg\<close>).
\<close>

lemma home_row_count_and_mean:
  fixes db :: database and m :: movie
  defines "revs \<equiv> filter (\<lambda>r. r_movie_id r = SqlInteger (m_id m)) (reviews db)"
  assumes "has_table db ''movies''" and "has_table db ''reviews''"
    and "distinct (map m_id (movies db))" and "m \<in> set (movies db)"
  shows "\<exists>rows row.
           home_page_query db = Inr rows \<and> row \<in> set rows \<and> summary_key row = movie_key m
           \<and> s_review_count row = length revs
           \<and> s_avg_rating row
               = (if length revs = 0 then None
                  else Some (of_int (sum_list (map r_rating revs)) / of_int (int (length revs))))"
proof -
  let ?S = "summarise (movie_key m, left_join_row (reviews db) m)"
  obtain rows where rows: "home_page_query db = Inr rows" "?S \<in> set rows"
    using home_page_query_row_of_movie [OF assms(2-5)] by blast
  show ?thesis
  proof (intro exI conjI)
    show "home_page_query db = Inr rows" by (rule rows)
    show "?S \<in> set rows" by (rule rows)
    show "summary_key ?S = movie_key m" by (rule summarise_key)
    show "s_review_count ?S = length revs"
      by (simp add: summarise_count revs_def)
    show "s_avg_rating ?S
        = (if length revs = 0 then None
           else Some (of_int (sum_list (map r_rating revs)) / of_int (int (length revs))))"
      by (simp add: summarise_avg revs_def)
  qed
qed

text \<open>
  Had the detail page passed the movie's id as a Python \<^verbatim>\<open>int\<close>, its mean would be the
  home page's average (in exact arithmetic), absent on both pages for a movie that no
  review matches.
\<close>

lemma pages_agree_for_python_int:
  assumes "has_table db ''movies''" and "has_table db ''reviews''"
    and "distinct (map m_id (movies db))" and "m \<in> set (movies db)"
    and "fits_int64 (m_id m)"
  shows "\<exists>rows row shown.
           home_page_query db = Inr rows \<and> row \<in> set rows \<and> summary_key row = movie_key m
           \<and> reviews_query db (PyInt (m_id m)) = Inr shown
           \<and> map_option fst (detail_metric shown) = map_option PyFloat (s_avg_rating row)"
proof -
  let ?S = "summarise (movie_key m, left_join_row (reviews db) m)"
  obtain rows where rows: "home_page_query db = Inr rows" "?S \<in> set rows"
    using home_page_query_row_of_movie [OF assms(1-4)] by blast
  have "bind_parameter (PyInt (m_id m)) = Inr (SqlInteger (m_id m))"
    using assms(5) by (simp add: bind_parameter_def)
  with assms(2)
  have shown: "reviews_query db (PyInt (m_id m))
                 = Inr (select_reviews (reviews db) (SqlInteger (m_id m)))"
    by (rule reviews_query_bound)
  show ?thesis
  proof (intro exI conjI)
    show "home_page_query db = Inr rows" by (rule rows)
    show "?S \<in> set rows" by (rule rows)
    show "summary_key ?S = movie_key m" by (rule summarise_key)
    show "reviews_query db (PyInt (m_id m))
            = Inr (select_reviews (reviews db) (SqlInteger (m_id m)))"
      by (rule shown)
    show "map_option fst (detail_metric (select_reviews (reviews db) (SqlInteger (m_id m))))
            = map_option PyFloat (s_avg_rating ?S)"
      by (simp add: detail_metric_select summarise_avg)
  qed
qed

text \<open>
  C6. The form of the detail page writes two reviews of "Inception", rated 5 and 3 (the
  spec's scenario). Both are stored, under the \<^verbatim>\<open>BLOB\<close> of the \<^verbatim>\<open>numpy.int64\<close> id, and
  the home page's row of the movie still has the count 0 and the average \<^verbatim>\<open>NULL\<close>: its
  join compares the movie's \<^verbatim>\<open>INTEGER\<close> id with the \<^verbatim>\<open>BLOB\<close>.
\<close>

theorem home_page_misses_form_reviews:
  "home_page_query inception_only_db = Inr [inception_row]
   \<and> add_review_to_db inception_only_db (selected_movie_id inception_row) 5
        (Some ''great'') (Some ''2024-03-15'') = (Inr True, form_db_1)
   \<and> add_review_to_db form_db_1 (selected_movie_id inception_row) 3
        (Some []) (Some ''2025-01-01'') = (Inr True, form_db_2)
   \<and> map r_rating (reviews form_db_2) = [5, 3]
   \<and> home_page_query form_db_2 = Inr [inception_row]
   \<and> s_review_count inception_row = 0
   \<and> s_avg_rating inception_row = None"
  by code_simp

text \<open>
  C9. After the form has written one review rated 5, the detail page of the movie shows
  the mean 5 of 1 review, and the home page's average of the same movie is \<^verbatim>\<open>NULL\<close>.
  The other way round, for the two reviews stored with the \<^verbatim>\<open>INTEGER\<close> id the home
  page has the average 4 and the detail page finds no review and computes no mean.
\<close>

theorem home_and_detail_average_differ:
  "snd (add_review_to_db inception_only_db (selected_movie_id inception_row) 5
          (Some ''great'') (Some ''2024-03-15'')) = form_db_1
   \<and> home_page_query form_db_1 = Inr [inception_row]
   \<and> s_avg_rating inception_row = None
   \<and> selected_movie_id inception_row = NumpyInt64 1
   \<and> reviews_query form_db_1 (NumpyInt64 1) = Inr [form_review_1]
   \<and> detail_metric [form_review_1] = Some (PyFloat 5, 1)
   \<and> home_page_query inception_db
        = Inr [inception_row\<lparr>s_avg_rating := Some 4, s_review_count := 2\<rparr>]
   \<and> reviews_query inception_db (NumpyInt64 1) = Inr []
   \<and> detail_metric [] = None"
  by code_simp

section \<open>What the home page shows\<close>

text \<open>
  With every stored rating between 1 and 5, an average the query returns lies between
  1 and 5, so it is never 0.
\<close>

lemma average_rating_in_range:
  assumes "distinct (map m_id ms)"
    and "\<forall>r \<in> set rs. 1 \<le> r_rating r \<and> r_rating r \<le> 5"
    and "row \<in> set (home_page_select ms rs)"
    and "s_avg_rating row = Some a"
  shows "1 \<le> a \<and> a \<le> 5"
proof -
  obtain m where m: "m \<in> set ms" "row = summarise (movie_key m, left_join_row rs m)"
    using assms(1,3) by (auto simp: home_page_select_rows)
  let ?xs = "filter (\<lambda>r. r_movie_id r = SqlInteger (m_id m)) rs"
  have ne: "?xs \<noteq> []" and a: "a = of_int (sum_list (map r_rating ?xs)) / of_int (int (length ?xs))"
    using assms(4) m(2) by (auto simp: summarise_avg split: if_splits)
  have bounds: "int (length xs) \<le> sum_list (map r_rating xs) \<and> sum_list (map r_rating xs) \<le> 5 * int (length xs)"
    if "\<forall>r \<in> set xs. 1 \<le> r_rating r \<and> r_rating r \<le> 5" for xs
    using that by (induction xs) auto
  have all: "\<forall>r \<in> set ?xs. 1 \<le> r_rating r \<and> r_rating r \<le> 5" using assms(2) by simp
  have pos: "(0::rat) < of_int (int (length ?xs))" using ne by simp
  have lo: "(of_int (int (length ?xs)) :: rat) \<le> of_int (sum_list (map r_rating ?xs))"
    using bounds [OF all] by (simp only: of_int_le_iff)
  have hi: "(of_int (sum_list (map r_rating ?xs)) :: rat) \<le> 5 * of_int (int (length ?xs))"
  proof -
    have "(of_int (sum_list (map r_rating ?xs)) :: rat) \<le> of_int (5 * int (length ?xs))"
      using bounds [OF all] by (simp only: of_int_le_iff)
    then show ?thesis by simp
  qed
  from pos lo hi show ?thesis unfolding a by (simp add: pos_le_divide_eq pos_divide_le_eq)
qed

text \<open>
  C10. With one movie that has reviews and one that has none, the card of the movie
  without a review does not show "no rating yet": the \<^verbatim>\<open>NULL\<close> average reaches the
  test of line 161 as \<^verbatim>\<open>NaN\<close>, which is true, and the card shows the average
  \<^verbatim>\<open>nan\<close> with 0 reviews. The text is shown only when no movie at all has a review.
\<close>

theorem home_page_card_of_unrated_movie:
  "home_page_cards two_movies_db
     = Inr [(2, AverageRating PyNaN 0), (1, AverageRating (PyFloat 4) 3)]
   \<and> filter (\<lambda>r. r_movie_id r = SqlInteger 2) (reviews two_movies_db) = []
   \<and> home_page_cards unrated_db = Inr [(2, NoRatingYet)]"
  by code_simp

section \<open>The genre statistics\<close>

text \<open>
  C1. For the movie of the spec's scenario, with the genre field "SF, " and the two
  Hangul syllables and with two reviews, the statistics query returns one row, labelled
  with the whole genre field and counting 2; neither of the two labels the detail page
  shows for the same movie is a label of the result.
\<close>

theorem genre_query_does_not_split:
  "genre_query inception_db = Inr [(''SF, '' @ genre_action, 2)]
   \<and> genre_labels (m_genre inception) = [''SF'', genre_action]
   \<and> length (filter (\<lambda>r. r_movie_id r = SqlInteger (m_id inception))
                (reviews inception_db)) = 2"
  by code_simp

section \<open>Deleting a movie that has reviews\<close>



end
